theory Spec2Isabelle
  imports Main "HOL-Library.AList" "HOL-Library.Multiset"
begin

section \<open>Values, exceptions and log records\<close>

text \<open>
  The ORM of \<^verbatim>\<open>www/orm.py\<close> handles untyped Python values: column values, rows
  (dictionaries from column name to value), lists of rows, \<^verbatim>\<open>None\<close>. \<open>VAttr n\<close> stands
  for an object found on the class under the name \<open>n\<close> (a bound method such as
  \<^verbatim>\<open>save\<close>); it is never \<^verbatim>\<open>None\<close>.
\<close>

datatype pyval =
    VNone
  | VBool bool
  | VInt int
  | VStr string
  | VRow "(string \<times> pyval) list"
  | VList "pyval list"
  | VAttr string

datatype exn =
    RuntimeError string
  | AttributeError string
  | KeyError string
  | TypeError string
  | DatabaseError string
  | UserError string

text \<open>
  An \<^verbatim>\<open>async def\<close> either returns, raises, or stays suspended at
  \<^verbatim>\<open>__pool.acquire()\<close> because no connection is free (\<open>Wait\<close>).
\<close>

datatype 'a outcome = Return 'a | Raise exn | Wait

datatype level = INFO | WARNING | ERROR

text \<open>
  A log record keeps the format string and its arguments apart, as \<^verbatim>\<open>logging\<close>
  does. \<^verbatim>\<open>logging.basicConfig(level=logging.INFO)\<close> drops the \<^verbatim>\<open>debug\<close>
  records, so they are not part of the log.
\<close>

datatype log_entry = Log level string "pyval list" | LogExc level exn

subsection \<open>Built-ins\<close>

text \<open>Truth value of an optional string: \<^verbatim>\<open>None\<close> and \<^verbatim>\<open>''\<close> are false.\<close>

definition truthy :: "string option \<Rightarrow> bool" where
  "truthy s = (case s of None \<Rightarrow> False | Some t \<Rightarrow> t \<noteq> [])"

text \<open>\<^verbatim>\<open>a or b\<close> for an optional string \<open>a\<close> and a string \<open>b\<close>.\<close>

definition or_else :: "string option \<Rightarrow> string \<Rightarrow> string" where
  "or_else a b = (case a of None \<Rightarrow> b | Some t \<Rightarrow> if t = [] then b else t)"

text \<open>\<^verbatim>\<open>sep.join(xs)\<close>.\<close>

fun join :: "string \<Rightarrow> string list \<Rightarrow> string" where
  "join sep [] = []"
| "join sep [x] = x"
| "join sep (x # y # ys) = x @ sep @ join sep (y # ys)"

text \<open>\<^verbatim>\<open>len(v)\<close>: defined on sequences and dictionaries, a \<^verbatim>\<open>TypeError\<close> otherwise.\<close>

fun py_len :: "pyval \<Rightarrow> exn + nat" where
  "py_len (VList xs) = Inr (length xs)"
| "py_len (VStr s) = Inr (length s)"
| "py_len (VRow kvs) = Inr (length kvs)"
| "py_len VNone = Inl (TypeError ''object of type 'NoneType' has no len()'')"
| "py_len (VBool b) = Inl (TypeError ''object of type 'bool' has no len()'')"
| "py_len (VInt i) = Inl (TypeError ''object of type 'int' has no len()'')"
| "py_len (VAttr n) = Inl (TypeError ''object of type 'method' has no len()'')"

text \<open>Running a list of fallible computations in order, stopping at the first error.\<close>

fun sequence :: "(exn + 'a) list \<Rightarrow> exn + 'a list" where
  "sequence [] = Inr []"
| "sequence (x # xs) =
     (case x of
        Inl e \<Rightarrow> Inl e
      | Inr v \<Rightarrow> (case sequence xs of Inl e \<Rightarrow> Inl e | Inr vs \<Rightarrow> Inr (v # vs)))"

section \<open>Field descriptors\<close>

text \<open>
  \<^verbatim>\<open>Field.default\<close> is any Python object: \<^verbatim>\<open>None\<close>, a literal value, or a
  callable. A callable is called with no argument; the call returns a value or raises.
\<close>

datatype dflt = Lit pyval | Callable "unit \<Rightarrow> exn + pyval"

record field =
  name :: "string option"
  column_type :: string
  primary_key :: bool
  default_val :: dflt

definition Field :: "string option \<Rightarrow> string \<Rightarrow> bool \<Rightarrow> dflt \<Rightarrow> field" where
  "Field n ct pk d = \<lparr>name = n, column_type = ct, primary_key = pk, default_val = d\<rparr>"

definition StringField :: "string option \<Rightarrow> bool \<Rightarrow> dflt \<Rightarrow> string \<Rightarrow> field" where
  "StringField n pk d ddl = Field n ddl pk d"

definition BooleanField :: "string option \<Rightarrow> dflt \<Rightarrow> field" where
  "BooleanField n d = Field n ''boolean'' False d"

definition IntegerField :: "string option \<Rightarrow> bool \<Rightarrow> dflt \<Rightarrow> field" where
  "IntegerField n pk d = Field n ''bigint'' pk d"

definition TextField :: "string option \<Rightarrow> dflt \<Rightarrow> field" where
  "TextField n d = Field n ''text'' False d"

text \<open>
  \<^verbatim>\<open>FloatField\<close> differs from \<^verbatim>\<open>IntegerField\<close> in the column type
  \<^verbatim>\<open>real\<close> and in its default, the float 0.0; it is left out, the values here having
  no floats.
\<close>

section \<open>The metaclass: compiling a table declaration\<close>

text \<open>
  A class body is an ordered dictionary from attribute name to object. The loop of
  \<^verbatim>\<open>ModelMetaclass.__new__\<close> only asks whether an object is a \<^verbatim>\<open>Field\<close>.
  \<^verbatim>\<open>__table__\<close>, when the class body declares it, is a string; it is passed on its own.
\<close>

datatype attr = FieldAttr field | OtherAttr

record table =
  tbl_mappings :: "(string \<times> field) list"
  tbl_table :: string
  tbl_primary_key :: string
  tbl_fields :: "string list"
  tbl_select :: string
  tbl_insert :: string
  tbl_update :: string
  tbl_delete :: string

datatype cls = Plain | Compiled table

text \<open>
  The loop over \<^verbatim>\<open>attrs.items()\<close>, with \<^verbatim>\<open>mappings\<close>, \<^verbatim>\<open>fields\<close> and
  \<^verbatim>\<open>primaryKey\<close> as accumulators. \<^verbatim>\<open>mappings[k] = v\<close> is a dictionary store;
  \<^verbatim>\<open>if primaryKey:\<close> tests the truth value of the name found so far.
\<close>

fun scan_attrs ::
  "(string \<times> attr) list \<Rightarrow> (string \<times> field) list \<Rightarrow> string list \<Rightarrow> string option
     \<Rightarrow> exn + ((string \<times> field) list \<times> string list \<times> string option)" where
  "scan_attrs [] mappings flds primaryKey = Inr (mappings, flds, primaryKey)"
| "scan_attrs ((k, OtherAttr) # rest) mappings flds primaryKey =
     scan_attrs rest mappings flds primaryKey"
| "scan_attrs ((k, FieldAttr v) # rest) mappings flds primaryKey =
     (if primary_key v then
        (if truthy primaryKey
         then Inl (RuntimeError (''Duplicate primary key for field: '' @ k))
         else scan_attrs rest (AList.update k v mappings) flds (Some k))
      else scan_attrs rest (AList.update k v mappings) (flds @ [k]) primaryKey)"

text \<open>\<^verbatim>\<open>'`%s`' % f\<close>.\<close>

definition escaped :: "string \<Rightarrow> string" where
  "escaped f = ''`'' @ f @ ''`''"

text \<open>
  \<^verbatim>\<open>'`%s`=?' % (mappings.get(f).name or f)\<close>: \<^verbatim>\<open>mappings.get(f)\<close> is
  \<^verbatim>\<open>None\<close> for a missing key, and reading \<^verbatim>\<open>.name\<close> of it raises.
\<close>

definition set_item :: "(string \<times> field) list \<Rightarrow> string \<Rightarrow> exn + string" where
  "set_item mappings f =
     (case map_of mappings f of
        None \<Rightarrow> Inl (AttributeError ([CHR 0x27] @ ''NoneType' object has no attribute 'name'' @ [CHR 0x27]))
      | Some fld \<Rightarrow> Inr (''`'' @ or_else (name fld) f @ ''`=?''))"

text \<open>\<^verbatim>\<open>', '.join('?' * n)\<close>: the string of \<open>n\<close> question marks, joined character by character.\<close>

definition placeholders :: "nat \<Rightarrow> string" where
  "placeholders n = join '', '' (map (\<lambda>c. [c]) (replicate n (CHR ''?'')))"

definition ModelMetaclass_new ::
  "string \<Rightarrow> string option \<Rightarrow> (string \<times> attr) list \<Rightarrow> exn + cls" where
  "ModelMetaclass_new cname table_attr attrs =
     (if cname = ''Model'' then Inr Plain
      else
        let tableName = or_else table_attr cname in
        case scan_attrs attrs [] [] None of
          Inl e \<Rightarrow> Inl e
        | Inr (mappings, flds, primaryKey) \<Rightarrow>
            if \<not> truthy primaryKey then Inl (RuntimeError ''Primary key not found.'')
            else
              let pk = the primaryKey;
                  escaped_fields = map escaped flds
              in case sequence (map (set_item mappings) flds) of
                   Inl e \<Rightarrow> Inl e
                 | Inr sets \<Rightarrow>
                     Inr (Compiled
                       \<lparr>tbl_mappings = mappings,
                        tbl_table = tableName,
                        tbl_primary_key = pk,
                        tbl_fields = flds,
                        tbl_select = ''select `'' @ pk @ ''`, '' @ join '', '' escaped_fields
                                     @ '' from `'' @ tableName @ ''`'',
                        tbl_insert = ''insert into `'' @ tableName @ ''` ('' @ join '', '' escaped_fields
                                     @ '', `'' @ pk @ ''`) values (''
                                     @ placeholders (length escaped_fields + 1) @ '')'',
                        tbl_update = ''update `'' @ tableName @ ''` set '' @ join '', '' sets
                                     @ '' where `'' @ pk @ ''`=?'',
                        tbl_delete = ''delete from `'' @ tableName @ ''` where `'' @ pk @ ''`=?''\<rparr>))"

text \<open>The one table class of the module.\<close>

definition Student_attrs :: "(string \<times> attr) list" where
  "Student_attrs =
     [(''SId'', FieldAttr (IntegerField None True (Lit (VInt 0)))),
      (''Sname'', FieldAttr (StringField None False (Lit VNone) ''varchar(100)'')),
      (''Sage'', FieldAttr (StringField None False (Lit VNone) ''varchar(100)'')),
      (''Ssex'', FieldAttr (StringField None False (Lit VNone) ''varchar(100)''))]"

section \<open>The connection pool and the SQL executor\<close>

text \<open>
  The pool of \<^verbatim>\<open>aiomysql\<close> keeps the idle connections and the ones checked out.
  \<^verbatim>\<open>acquire\<close> hands out an idle connection; with none idle the caller waits.
  \<^verbatim>\<open>release\<close> puts a connection back among the idle ones.
\<close>

record pool =
  free :: "nat list"
  used :: "nat list"

record world =
  w_pool :: pool
  w_log :: "log_entry list"

definition acquire :: "pool \<Rightarrow> (nat \<times> pool) option" where
  "acquire p =
     (case free p of
        [] \<Rightarrow> None
      | conn # idle \<Rightarrow> Some (conn, p\<lparr>free := idle, used := conn # used p\<rparr>))"

definition release :: "nat \<Rightarrow> pool \<Rightarrow> pool" where
  "release conn p = p\<lparr>free := free p @ [conn], used := remove1 conn (used p)\<rparr>"

definition logging :: "level \<Rightarrow> string \<Rightarrow> pyval list \<Rightarrow> world \<Rightarrow> world" where
  "logging l msg margs w = w\<lparr>w_log := w_log w @ [Log l msg margs]\<rparr>"

definition logging_exc :: "level \<Rightarrow> exn \<Rightarrow> world \<Rightarrow> world" where
  "logging_exc l e w = w\<lparr>w_log := w_log w @ [LogExc l e]\<rparr>"

text \<open>
  What the interpreter and the database engine do with one statement is not in the
  module; it is a parameter. For the rewritten statement and its arguments a
  \<open>reply\<close> tells which step raises, if any, and what the engine holds otherwise:
  \<^item> \<open>format_err\<close>: \<^verbatim>\<open>sql.replace('?', '%s') % tuple(args)\<close> on the logging line
    (the conversions and the arguments differ in number);
  \<^item> \<open>cursor_err\<close>, \<open>execute_err\<close>, \<open>fetch_err\<close>, \<open>close_err\<close>:
    \<^verbatim>\<open>conn.cursor\<close>, \<^verbatim>\<open>cur.execute\<close>, \<^verbatim>\<open>cur.fetchmany\<close> or
    \<^verbatim>\<open>cur.fetchall\<close>, \<^verbatim>\<open>cur.close\<close>;
  \<^item> \<open>rows\<close>: the rows the statement selects, in the engine's order;
    \<open>rowcount\<close>: \<^verbatim>\<open>cur.rowcount\<close> after the statement.
\<close>

record reply =
  format_err :: "exn option"
  cursor_err :: "exn option"
  execute_err :: "exn option"
  fetch_err :: "exn option"
  close_err :: "exn option"
  rows :: "pyval list"
  rowcount :: int

type_synonym driver = "string \<Rightarrow> pyval list \<Rightarrow> reply"

text \<open>\<^verbatim>\<open>sql.replace('?', '%s')\<close>.\<close>

definition replace_qmark :: "string \<Rightarrow> string" where
  "replace_qmark sql = concat (map (\<lambda>c. if c = CHR ''?'' then ''%s'' else [c]) sql)"

text \<open>
  The body of the \<^verbatim>\<open>async with\<close> block. \<^verbatim>\<open>if limit:\<close> is false for
  \<^verbatim>\<open>None\<close> and for 0.
\<close>

definition run_cursor :: "reply \<Rightarrow> bool \<Rightarrow> nat option \<Rightarrow> world \<Rightarrow> pyval outcome \<times> world" where
  "run_cursor r select limit w =
     (case cursor_err r of
        Some e \<Rightarrow> (Raise e, w)
      | None \<Rightarrow>
          (case execute_err r of
             Some e \<Rightarrow> (Raise e, w)
           | None \<Rightarrow>
               if select then
                 (case fetch_err r of
                    Some e \<Rightarrow> (Raise e, w)
                  | None \<Rightarrow>
                      let result = (case limit of
                                      None \<Rightarrow> rows r
                                    | Some n \<Rightarrow> if n \<noteq> 0 then take n (rows r) else rows r);
                          w1 = logging INFO ''rows returned: %s'' [VInt (int (length result))] w;
                          w2 = logging INFO ''closing cursor...'' [] w1
                      in (case close_err r of
                            Some e \<Rightarrow> (Raise e, w2)
                          | None \<Rightarrow> (Return (VList result), w2)))
               else
                 let affected = rowcount r;
                     w1 = logging INFO ''rows affected: %s'' [VInt affected] w;
                     w2 = logging INFO ''closing cursor...'' [] w1
                 in (case close_err r of
                       Some e \<Rightarrow> (Raise e, w2)
                     | None \<Rightarrow> (Return (VInt affected), w2))))"

text \<open>
  \<^verbatim>\<open>async with __pool.acquire() as conn\<close> releases the connection when the block
  is left, by \<^verbatim>\<open>return\<close> or by an exception.
\<close>

definition executeSql ::
  "driver \<Rightarrow> string \<Rightarrow> pyval list \<Rightarrow> bool \<Rightarrow> nat option \<Rightarrow> world \<Rightarrow> pyval outcome \<times> world" where
  "executeSql drv sql args select limit w =
     (let stmt = replace_qmark sql;
          r = drv stmt args
      in case format_err r of
           Some e \<Rightarrow> (Raise e, w)
         | None \<Rightarrow>
             let w1 = logging INFO stmt args w
             in (case acquire (w_pool w1) of
                   None \<Rightarrow> (Wait, w1)
                 | Some (conn, p) \<Rightarrow>
                     let (res, w2) = run_cursor r select limit (w1\<lparr>w_pool := p\<rparr>)
                     in (res, w2\<lparr>w_pool := release conn (w_pool w2)\<rparr>)))"

section \<open>Records\<close>

text \<open>
  An instance of \<^verbatim>\<open>Model\<close> is a dictionary. Python looks an attribute up on the class
  first (the methods of \<^verbatim>\<open>Model\<close> and of \<^verbatim>\<open>dict\<close>, the attributes the
  metaclass stores) and calls \<^verbatim>\<open>__getattr__\<close> only when that finds nothing; the
  namespace \<open>ns\<close> is what the class lookup finds. \<^verbatim>\<open>__setattr__\<close> is called for
  every assignment.
\<close>

type_synonym namespace = "string \<Rightarrow> pyval option"

type_synonym model = "string \<Rightarrow> pyval option"

definition Model_getattr :: "model \<Rightarrow> string \<Rightarrow> exn + pyval" where
  "Model_getattr self key =
     (case self key of
        Some v \<Rightarrow> Inr v
      | None \<Rightarrow> Inl (AttributeError ([CHR 0x27] @ ''Model' object has no attribute '' @ [CHR 0x27] @ key @ [CHR 0x27])))"

definition Model_setattr :: "model \<Rightarrow> string \<Rightarrow> pyval \<Rightarrow> model" where
  "Model_setattr self key v = self(key \<mapsto> v)"

text \<open>\<^verbatim>\<open>self.key\<close>, that is \<^verbatim>\<open>getattr(self, key)\<close>.\<close>

definition py_getattr :: "namespace \<Rightarrow> model \<Rightarrow> string \<Rightarrow> exn + pyval" where
  "py_getattr ns self key =
     (case ns key of Some v \<Rightarrow> Inr v | None \<Rightarrow> Model_getattr self key)"

text \<open>\<^verbatim>\<open>getattr(self, key, d)\<close>: only an \<^verbatim>\<open>AttributeError\<close> gives the default.\<close>

definition getattr_default :: "namespace \<Rightarrow> model \<Rightarrow> string \<Rightarrow> pyval \<Rightarrow> exn + pyval" where
  "getattr_default ns self key d =
     (case py_getattr ns self key of
        Inr v \<Rightarrow> Inr v
      | Inl e \<Rightarrow> (case e of AttributeError m \<Rightarrow> Inr d | _ \<Rightarrow> Inl e))"

definition getValue :: "namespace \<Rightarrow> model \<Rightarrow> string \<Rightarrow> exn + pyval" where
  "getValue ns self key = getattr_default ns self key VNone"

definition getValueOrDefault ::
  "namespace \<Rightarrow> (string \<times> field) list \<Rightarrow> model \<Rightarrow> string \<Rightarrow> (exn + pyval) \<times> model" where
  "getValueOrDefault ns mappings self key =
     (case getattr_default ns self key VNone of
        Inl e \<Rightarrow> (Inl e, self)
      | Inr v \<Rightarrow>
          if v = VNone then
            (case map_of mappings key of
               None \<Rightarrow> (Inl (KeyError key), self)
             | Some fld \<Rightarrow>
                 (case default_val fld of
                    Lit d \<Rightarrow>
                      if d \<noteq> VNone then (Inr d, Model_setattr self key d) else (Inr v, self)
                  | Callable f \<Rightarrow>
                      (case f () of
                         Inl e \<Rightarrow> (Inl e, self)
                       | Inr d \<Rightarrow> (Inr d, Model_setattr self key d))))
          else (Inr v, self))"

text \<open>\<^verbatim>\<open>list(map(self.getValueOrDefault, keys))\<close>, one key after the other.\<close>

fun map_getValueOrDefault ::
  "namespace \<Rightarrow> (string \<times> field) list \<Rightarrow> model \<Rightarrow> string list \<Rightarrow> (exn + pyval list) \<times> model" where
  "map_getValueOrDefault ns mappings self [] = (Inr [], self)"
| "map_getValueOrDefault ns mappings self (key # keys) =
     (case getValueOrDefault ns mappings self key of
        (Inl e, self1) \<Rightarrow> (Inl e, self1)
      | (Inr v, self1) \<Rightarrow>
          (case map_getValueOrDefault ns mappings self1 keys of
             (Inl e, self2) \<Rightarrow> (Inl e, self2)
           | (Inr vs, self2) \<Rightarrow> (Inr (v # vs), self2)))"

text \<open>The two lines that \<^verbatim>\<open>save\<close> and \<^verbatim>\<open>update\<close> start with.\<close>

definition statement_args :: "namespace \<Rightarrow> table \<Rightarrow> model \<Rightarrow> (exn + pyval list) \<times> model" where
  "statement_args ns c self =
     (case map_getValueOrDefault ns (tbl_mappings c) self (tbl_fields c) of
        (Inl e, self1) \<Rightarrow> (Inl e, self1)
      | (Inr args, self1) \<Rightarrow>
          (case getValueOrDefault ns (tbl_mappings c) self1 (tbl_primary_key c) of
             (Inl e, self2) \<Rightarrow> (Inl e, self2)
           | (Inr v, self2) \<Rightarrow> (Inr (args @ [v]), self2)))"

definition find :: "table \<Rightarrow> driver \<Rightarrow> pyval \<Rightarrow> world \<Rightarrow> pyval outcome \<times> world" where
  "find c drv pk w =
     (case executeSql drv (tbl_select c @ '' where '' @ tbl_primary_key c @ ''= ?'') [pk] True (Some 1) w of
        (Return result, w1) \<Rightarrow>
          (case py_len result of
             Inl e \<Rightarrow> (Raise e, w1)
           | Inr n \<Rightarrow> if n = 0 then (Return VNone, w1) else (Return result, w1))
      | (Raise e, w1) \<Rightarrow> (Raise e, w1)
      | (Wait, w1) \<Rightarrow> (Wait, w1))"

definition findAll ::
  "table \<Rightarrow> driver \<Rightarrow> string option \<Rightarrow> nat option \<Rightarrow> world \<Rightarrow> pyval outcome \<times> world" where
  "findAll c drv where_clause limit w =
     (case (if truthy where_clause
            then executeSql drv (tbl_select c @ '' where '' @ the where_clause) [] True limit w
            else executeSql drv (tbl_select c) [] True limit w) of
        (Return result, w1) \<Rightarrow>
          (case py_len result of
             Inl e \<Rightarrow> (Raise e, w1)
           | Inr n \<Rightarrow> if n = 0 then (Return VNone, w1) else (Return result, w1))
      | (Raise e, w1) \<Rightarrow> (Raise e, w1)
      | (Wait, w1) \<Rightarrow> (Wait, w1))"

definition findCount ::
  "table \<Rightarrow> driver \<Rightarrow> string option \<Rightarrow> nat option \<Rightarrow> world \<Rightarrow> pyval outcome \<times> world" where
  "findCount c drv where_clause limit w =
     (case findAll c drv where_clause limit w of
        (Return result, w1) \<Rightarrow>
          (case py_len result of
             Inl e \<Rightarrow> (Raise e, w1)
           | Inr n \<Rightarrow> (Return (VInt (int n)), w1))
      | (Raise e, w1) \<Rightarrow> (Raise e, w1)
      | (Wait, w1) \<Rightarrow> (Wait, w1))"

text \<open>
  \<^verbatim>\<open>save\<close>: the arguments are resolved before the \<^verbatim>\<open>try\<close>; the
  \<^verbatim>\<open>except Exception\<close> clause covers the call of the executor and the test of its
  result. Every \<open>exn\<close> is an \<^verbatim>\<open>Exception\<close>.
\<close>

definition save ::
  "namespace \<Rightarrow> table \<Rightarrow> driver \<Rightarrow> model \<Rightarrow> world \<Rightarrow> pyval outcome \<times> model \<times> world" where
  "save ns c drv self w =
     (case statement_args ns c self of
        (Inl e, self1) \<Rightarrow> (Raise e, self1, w)
      | (Inr args, self1) \<Rightarrow>
          (case executeSql drv (tbl_insert c) args False None w of
             (Return result, w1) \<Rightarrow>
               if result \<noteq> VInt 1
               then (Return VNone, self1,
                     logging WARNING ''failed to insert record. affected rows: %s'' [result] w1)
               else (Return VNone, self1, w1)
           | (Raise e, w1) \<Rightarrow> (Return VNone, self1, logging_exc ERROR e w1)
           | (Wait, w1) \<Rightarrow> (Wait, self1, w1)))"

definition update ::
  "namespace \<Rightarrow> table \<Rightarrow> driver \<Rightarrow> model \<Rightarrow> world \<Rightarrow> pyval outcome \<times> model \<times> world" where
  "update ns c drv self w =
     (case statement_args ns c self of
        (Inl e, self1) \<Rightarrow> (Raise e, self1, w)
      | (Inr args, self1) \<Rightarrow>
          (case executeSql drv (tbl_update c) args False None w of
             (Return result, w1) \<Rightarrow>
               if result \<noteq> VInt 1
               then (Return VNone, self1,
                     logging WARNING ''failed to update record. affected rows: %s'' [result] w1)
               else (Return VNone, self1, w1)
           | (Raise e, w1) \<Rightarrow> (Raise e, self1, w1)
           | (Wait, w1) \<Rightarrow> (Wait, self1, w1)))"

definition remove :: "table \<Rightarrow> driver \<Rightarrow> pyval \<Rightarrow> world \<Rightarrow> pyval outcome \<times> world" where
  "remove c drv primary w =
     (case executeSql drv (tbl_delete c) [primary] False None w of
        (Return result, w1) \<Rightarrow>
          if result \<noteq> VInt 1
          then (Return VNone,
                logging WARNING ''failed to remove record. affected rows: %s'' [result] w1)
          else (Return VNone, w1)
      | (Raise e, w1) \<Rightarrow> (Raise e, w1)
      | (Wait, w1) \<Rightarrow> (Wait, w1))"

section \<open>Reading a declaration\<close>

text \<open>
  The notions the properties are stated with: the names of the fields of a declaration
  that are marked primary key, the names of its other fields (both in declaration
  order), the dictionary of fields the loop builds, and the column a field is written
  to by \<^verbatim>\<open>update\<close>.
\<close>

definition is_pk_attr :: "string \<times> attr \<Rightarrow> bool" where
  "is_pk_attr ka = (case snd ka of FieldAttr f \<Rightarrow> primary_key f | OtherAttr \<Rightarrow> False)"

definition is_plain_attr :: "string \<times> attr \<Rightarrow> bool" where
  "is_plain_attr ka = (case snd ka of FieldAttr f \<Rightarrow> \<not> primary_key f | OtherAttr \<Rightarrow> False)"

definition primary_keys :: "(string \<times> attr) list \<Rightarrow> string list" where
  "primary_keys attrs = map fst (filter is_pk_attr attrs)"

definition plain_keys :: "(string \<times> attr) list \<Rightarrow> string list" where
  "plain_keys attrs = map fst (filter is_plain_attr attrs)"

fun stored :: "(string \<times> attr) list \<Rightarrow> (string \<times> field) list \<Rightarrow> (string \<times> field) list" where
  "stored [] m = m"
| "stored ((k, OtherAttr) # rest) m = stored rest m"
| "stored ((k, FieldAttr v) # rest) m = stored rest (AList.update k v m)"

definition column :: "(string \<times> field) list \<Rightarrow> string \<Rightarrow> string" where
  "column m f = or_else (name (the (map_of m f))) f"

text \<open>The statement templates of a compiled class, and the number of \<open>?\<close> in a text.\<close>

definition insert_of :: "exn + cls \<Rightarrow> string option" where
  "insert_of r = (case r of Inr (Compiled t) \<Rightarrow> Some (tbl_insert t) | _ \<Rightarrow> None)"

definition update_of :: "exn + cls \<Rightarrow> string option" where
  "update_of r = (case r of Inr (Compiled t) \<Rightarrow> Some (tbl_update t) | _ \<Rightarrow> None)"

definition qmarks :: "string \<Rightarrow> nat" where
  "qmarks s = count_list s (CHR ''?'')"

section \<open>The module's table class and sample surroundings\<close>

text \<open>The class \<^verbatim>\<open>Student\<close> as the metaclass compiles it.\<close>

definition Student :: table where
  "Student =
     \<lparr>tbl_mappings =
        [(''SId'', IntegerField None True (Lit (VInt 0))),
         (''Sname'', StringField None False (Lit VNone) ''varchar(100)''),
         (''Sage'', StringField None False (Lit VNone) ''varchar(100)''),
         (''Ssex'', StringField None False (Lit VNone) ''varchar(100)'')],
      tbl_table = ''Student'',
      tbl_primary_key = ''SId'',
      tbl_fields = [''Sname'', ''Sage'', ''Ssex''],
      tbl_select = ''select `SId`, `Sname`, `Sage`, `Ssex` from `Student`'',
      tbl_insert = ''insert into `Student` (`Sname`, `Sage`, `Ssex`, `SId`) values (?, ?, ?, ?)'',
      tbl_update = ''update `Student` set `Sname`=?, `Sage`=?, `Ssex`=? where `SId`=?'',
      tbl_delete = ''delete from `Student` where `SId`=?''\<rparr>"

text \<open>
  The methods that the class \<^verbatim>\<open>Model\<close> itself defines. An attribute of one of
  these names is found on the class (so are the methods of \<^verbatim>\<open>dict\<close> and the
  attributes the metaclass sets).
\<close>

definition Model_methods :: namespace where
  "Model_methods key =
     (if key \<in> set [''getValue'', ''getValueOrDefault'', ''find'', ''findAll'', ''findCount'',
                     ''save'', ''update'', ''remove'']
      then Some (VAttr key) else None)"

text \<open>A reply without any failure, a pool with one idle connection, an empty log.\<close>

definition answer :: "pyval list \<Rightarrow> int \<Rightarrow> reply" where
  "answer rs n =
     \<lparr>format_err = None, cursor_err = None, execute_err = None, fetch_err = None,
      close_err = None, rows = rs, rowcount = n\<rparr>"

definition world0 :: world where
  "world0 = \<lparr>w_pool = \<lparr>free = [0], used = []\<rparr>, w_log = []\<rparr>"

text \<open>
  A statement runs through when no step of it raises (\<^verbatim>\<open>fetchmany\<close> and
  \<^verbatim>\<open>fetchall\<close> are called in select mode only).
\<close>

definition runs :: "driver \<Rightarrow> string \<Rightarrow> pyval list \<Rightarrow> bool \<Rightarrow> bool" where
  "runs drv sql args select =
     (let r = drv (replace_qmark sql) args
      in format_err r = None \<and> cursor_err r = None \<and> execute_err r = None
         \<and> (if select then fetch_err r = None else True) \<and> close_err r = None)"

text \<open>The row count the engine reports for a statement.\<close>

definition reported :: "driver \<Rightarrow> string \<Rightarrow> pyval list \<Rightarrow> int" where
  "reported drv sql args = rowcount (drv (replace_qmark sql) args)"

text \<open>Sample engines: one row matches, no row matches, the statement is refused.\<close>

definition row02 :: pyval where
  "row02 = VRow [(''SId'', VStr ''02''), (''Sname'', VStr ''Qian''),
                 (''Sage'', VStr ''1990-12-21''), (''Ssex'', VStr ''M'')]"

definition db_one_row :: driver where
  "db_one_row sql args = answer [row02] 1"

definition db_no_rows :: driver where
  "db_no_rows sql args = answer [] 0"

definition db_refuses :: driver where
  "db_refuses sql args = (answer [] 0)\<lparr>execute_err := Some (DatabaseError ''Duplicate entry'')\<rparr>"

definition student08 :: model where
  "student08 = [''SId'' \<mapsto> VStr ''08'', ''Sname'' \<mapsto> VStr ''Wang'',
                ''Sage'' \<mapsto> VStr ''1990-10-01'', ''Ssex'' \<mapsto> VStr ''F'']"

text \<open>
  A table class whose primary key has a default factory that raises, and one with a
  column called \<^verbatim>\<open>update\<close>:
  \<^verbatim>\<open>class Ticket(Model): id = StringField(primary_key=True, default=next_id)\<close>,
  \<^verbatim>\<open>class Job(Model): id = IntegerField(primary_key=True); update = StringField()\<close>.
\<close>

definition next_id :: "unit \<Rightarrow> exn + pyval" where
  "next_id u = Inl (UserError ''no id left'')"

definition Ticket :: table where
  "Ticket =
     \<lparr>tbl_mappings = [(''id'', StringField None True (Callable next_id) ''varchar(50)'')],
      tbl_table = ''Ticket'',
      tbl_primary_key = ''id'',
      tbl_fields = [],
      tbl_select = ''select `id`,  from `Ticket`'',
      tbl_insert = ''insert into `Ticket` (, `id`) values (?)'',
      tbl_update = ''update `Ticket` set  where `id`=?'',
      tbl_delete = ''delete from `Ticket` where `id`=?''\<rparr>"

definition Job :: table where
  "Job =
     \<lparr>tbl_mappings = [(''id'', IntegerField None True (Lit (VInt 0))),
                      (''update'', StringField None False (Lit VNone) ''varchar(100)'')],
      tbl_table = ''Job'',
      tbl_primary_key = ''id'',
      tbl_fields = [''update''],
      tbl_select = ''select `id`, `update` from `Job`'',
      tbl_insert = ''insert into `Job` (`update`, `id`) values (?, ?)'',
      tbl_update = ''update `Job` set `update`=? where `id`=?'',
      tbl_delete = ''delete from `Job` where `id`=?''\<rparr>"

text \<open>
  A default factory that returns a value, and a \<^verbatim>\<open>Job\<close> record whose column
  \<^verbatim>\<open>update\<close> is set.
\<close>

definition clock :: "unit \<Rightarrow> exn + pyval" where
  "clock u = Inr (VInt 1604500000)"

definition job1 :: model where
  "job1 = [''id'' \<mapsto> VInt 7, ''update'' \<mapsto> VStr ''2020-11-04'']"

section \<open>Properties of the metaclass\<close>

lemma primary_keys_simps [simp]:
  "primary_keys [] = []"
  "primary_keys ((k, OtherAttr) # rest) = primary_keys rest"
  "primary_keys ((k, FieldAttr v) # rest) =
     (if primary_key v then k # primary_keys rest else primary_keys rest)"
  by (simp_all add: primary_keys_def is_pk_attr_def)

lemma plain_keys_simps [simp]:
  "plain_keys [] = []"
  "plain_keys ((k, OtherAttr) # rest) = plain_keys rest"
  "plain_keys ((k, FieldAttr v) # rest) =
     (if primary_key v then plain_keys rest else k # plain_keys rest)"
  by (simp_all add: plain_keys_def is_plain_attr_def)

text \<open>Once a primary key is held, the next field marked primary key stops the loop.\<close>

lemma scan_attrs_found:
  "truthy pk \<Longrightarrow>
   scan_attrs attrs m fs pk =
     (case primary_keys attrs of
        [] \<Rightarrow> Inr (stored attrs m, fs @ plain_keys attrs, pk)
      | k # ks \<Rightarrow> Inl (RuntimeError (''Duplicate primary key for field: '' @ k)))"
  by (induction attrs m fs pk rule: scan_attrs.induct) (auto split: list.splits)

lemma scan_attrs_fresh:
  "\<not> truthy pk \<Longrightarrow> \<forall>k \<in> set (primary_keys attrs). k \<noteq> [] \<Longrightarrow>
   scan_attrs attrs m fs pk =
     (case primary_keys attrs of
        [] \<Rightarrow> Inr (stored attrs m, fs @ plain_keys attrs, pk)
      | [k] \<Rightarrow> Inr (stored attrs m, fs @ plain_keys attrs, Some k)
      | k # k' # ks \<Rightarrow> Inl (RuntimeError (''Duplicate primary key for field: '' @ k')))"
proof (induction attrs m fs pk rule: scan_attrs.induct)
  case (1 m fs pk)
  then show ?case by simp
next
  case (2 k rest m fs pk)
  then show ?case by (simp cong: list.case_cong)
next
  case (3 k v rest m fs pk)
  show ?case
  proof (cases "primary_key v")
    case True
    with 3 have "k \<noteq> []" by simp
    then have t: "truthy (Some k)" by (simp add: truthy_def)
    show ?thesis using True 3(3) scan_attrs_found [OF t, of rest "AList.update k v m" fs]
      by (simp split: list.splits)
  next
    case False
    with 3 show ?thesis by (simp cong: list.case_cong)
  qed
qed

lemma stored_other_key:
  "k \<notin> fst ` set attrs \<Longrightarrow> map_of (stored attrs m) k = map_of m k"
  by (induction attrs m rule: stored.induct) (auto simp: update_conv')

lemma stored_declared:
  "distinct (map fst attrs) \<Longrightarrow> (k, FieldAttr f) \<in> set attrs \<Longrightarrow>
   map_of (stored attrs m) k = Some f"
proof (induction attrs m rule: stored.induct)
  case (1 m)
  then show ?case by simp
next
  case (2 k' rest m)
  then show ?case by auto
next
  case (3 k' v rest m)
  show ?case
  proof (cases "(k, FieldAttr f) \<in> set rest")
    case True
    with 3 show ?thesis by simp
  next
    case False
    with 3 have eq: "k = k'" "f = v" by auto
    with 3 have "k \<notin> fst ` set rest" by simp
    then show ?thesis using eq by (simp add: stored_other_key update_conv')
  qed
qed

lemma stored_dom:
  "k \<in> set (plain_keys attrs) \<or> map_of m k \<noteq> None \<Longrightarrow> map_of (stored attrs m) k \<noteq> None"
  by (induction attrs m rule: stored.induct) (auto simp: update_conv' split: if_splits)

lemma sequence_map_Inr:
  "(\<forall>x \<in> set xs. g x = Inr (h x)) \<Longrightarrow> sequence (map g xs) = Inr (map h xs)"
  by (induction xs) simp_all

lemma set_item_plain:
  "f \<in> set (plain_keys attrs) \<Longrightarrow>
   set_item (stored attrs m) f = Inr (''`'' @ column (stored attrs m) f @ ''`=?'')"
  using stored_dom [of f attrs m] by (auto simp: set_item_def column_def)

text \<open>What the metaclass builds for a declaration with one field marked primary key.\<close>

lemma compile_one_pk:
  assumes "cname \<noteq> ''Model''" and "primary_keys attrs = [pk]" and "pk \<noteq> []"
  shows "ModelMetaclass_new cname table_attr attrs =
    Inr (Compiled
      \<lparr>tbl_mappings = stored attrs [],
       tbl_table = or_else table_attr cname,
       tbl_primary_key = pk,
       tbl_fields = plain_keys attrs,
       tbl_select = ''select `'' @ pk @ ''`, '' @ join '', '' (map escaped (plain_keys attrs))
                    @ '' from `'' @ or_else table_attr cname @ ''`'',
       tbl_insert = ''insert into `'' @ or_else table_attr cname @ ''` (''
                    @ join '', '' (map escaped (plain_keys attrs))
                    @ '', `'' @ pk @ ''`) values (''
                    @ placeholders (length (plain_keys attrs) + 1) @ '')'',
       tbl_update = ''update `'' @ or_else table_attr cname @ ''` set ''
                    @ join '', '' (map (\<lambda>f. ''`'' @ column (stored attrs []) f @ ''`=?'') (plain_keys attrs))
                    @ '' where `'' @ pk @ ''`=?'',
       tbl_delete = ''delete from `'' @ or_else table_attr cname @ ''` where `'' @ pk @ ''`=?''\<rparr>)"
proof -
  have scan: "scan_attrs attrs [] [] None = Inr (stored attrs [], plain_keys attrs, Some pk)"
    using assms(2,3) scan_attrs_fresh [of None attrs "[]" "[]"] by (simp add: truthy_def)
  have sets: "sequence (map (set_item (stored attrs [])) (plain_keys attrs)) =
      Inr (map (\<lambda>f. ''`'' @ column (stored attrs []) f @ ''`=?'') (plain_keys attrs))"
    by (rule sequence_map_Inr) (simp add: set_item_plain)
  show ?thesis
    using assms(1,3) by (simp add: ModelMetaclass_new_def scan sets truthy_def Let_def)
qed

text \<open>
  C4, as the code has it. A declaration of a class that is not called
  \<^verbatim>\<open>Model\<close>, whose fields marked primary key have non-empty names: with no
  field marked primary key it is refused with
  \<^verbatim>\<open>RuntimeError('Primary key not found.')\<close>; with two or more it is refused with
  \<^verbatim>\<open>RuntimeError('Duplicate primary key for field: ...')\<close>, naming the second such
  field; with exactly one it is compiled, with that field as the primary key and the
  other fields, in declaration order, as \<^verbatim>\<open>__fields__\<close>.
\<close>

theorem primary_key_check:
  assumes "cname \<noteq> ''Model''" and "\<forall>k \<in> set (primary_keys attrs). k \<noteq> []"
  shows "(primary_keys attrs = [] \<longrightarrow>
            ModelMetaclass_new cname table_attr attrs = Inl (RuntimeError ''Primary key not found.''))
       \<and> (\<forall>k k' ks. primary_keys attrs = k # k' # ks \<longrightarrow>
            ModelMetaclass_new cname table_attr attrs =
              Inl (RuntimeError (''Duplicate primary key for field: '' @ k')))
       \<and> (\<forall>k. primary_keys attrs = [k] \<longrightarrow>
            (\<exists>t. ModelMetaclass_new cname table_attr attrs = Inr (Compiled t)
                 \<and> tbl_primary_key t = k \<and> tbl_fields t = plain_keys attrs))"
proof (intro conjI allI impI)
  assume "primary_keys attrs = []"
  then have "scan_attrs attrs [] [] None = Inr (stored attrs [], plain_keys attrs, None)"
    using scan_attrs_fresh [of None attrs "[]" "[]"] by (simp add: truthy_def)
  then show "ModelMetaclass_new cname table_attr attrs = Inl (RuntimeError ''Primary key not found.'')"
    using assms(1) by (simp add: ModelMetaclass_new_def truthy_def)
next
  fix k k' ks
  assume "primary_keys attrs = k # k' # ks"
  then have "scan_attrs attrs [] [] None =
      Inl (RuntimeError (''Duplicate primary key for field: '' @ k'))"
    using assms(2) scan_attrs_fresh [of None attrs "[]" "[]"] by (simp add: truthy_def)
  then show "ModelMetaclass_new cname table_attr attrs =
      Inl (RuntimeError (''Duplicate primary key for field: '' @ k'))"
    using assms(1) by (simp add: ModelMetaclass_new_def)
next
  fix k
  assume one: "primary_keys attrs = [k]"
  with assms(2) have "k \<noteq> []" by simp
  from compile_one_pk [OF assms(1) one this, of table_attr]
  show "\<exists>t. ModelMetaclass_new cname table_attr attrs = Inr (Compiled t)
          \<and> tbl_primary_key t = k \<and> tbl_fields t = plain_keys attrs"
    by simp
qed

theorem primary_key_check_witness:
  "ModelMetaclass_new ''Student'' (Some ''Student'')
     [(''Sname'', FieldAttr (StringField None False (Lit VNone) ''varchar(100)''))]
     = Inl (RuntimeError ''Primary key not found.'')
   \<and> ModelMetaclass_new ''Student'' (Some ''Student'')
        [(''SId'', FieldAttr (IntegerField None True (Lit (VInt 0)))),
         (''Sname'', FieldAttr (StringField None True (Lit VNone) ''varchar(100)''))]
     = Inl (RuntimeError ''Duplicate primary key for field: Sname'')
   \<and> (\<exists>t. ModelMetaclass_new ''Student'' (Some ''Student'') Student_attrs = Inr (Compiled t)
          \<and> tbl_primary_key t = ''SId'' \<and> tbl_fields t = [''Sname'', ''Sage'', ''Ssex''])"
proof -
  have a: "''Student'' \<noteq> ''Model''" by simp
  have "ModelMetaclass_new ''Student'' (Some ''Student'')
     [(''Sname'', FieldAttr (StringField None False (Lit VNone) ''varchar(100)''))]
     = Inl (RuntimeError ''Primary key not found.'')"
    using primary_key_check [OF a,
      of "[(''Sname'', FieldAttr (StringField None False (Lit VNone) ''varchar(100)''))]"
         "Some ''Student''"]
    by (simp add: StringField_def Field_def)
  moreover have "ModelMetaclass_new ''Student'' (Some ''Student'')
        [(''SId'', FieldAttr (IntegerField None True (Lit (VInt 0)))),
         (''Sname'', FieldAttr (StringField None True (Lit VNone) ''varchar(100)''))]
     = Inl (RuntimeError ''Duplicate primary key for field: Sname'')"
    using primary_key_check [OF a,
      of "[(''SId'', FieldAttr (IntegerField None True (Lit (VInt 0)))),
           (''Sname'', FieldAttr (StringField None True (Lit VNone) ''varchar(100)''))]"
         "Some ''Student''"]
    by (simp add: StringField_def IntegerField_def Field_def)
  moreover have "\<exists>t. ModelMetaclass_new ''Student'' (Some ''Student'') Student_attrs = Inr (Compiled t)
          \<and> tbl_primary_key t = ''SId'' \<and> tbl_fields t = [''Sname'', ''Sage'', ''Ssex'']"
    using primary_key_check [OF a, of Student_attrs "Some ''Student''"]
    by (simp add: Student_attrs_def StringField_def IntegerField_def Field_def)
  ultimately show ?thesis by blast
qed

text \<open>
  The guard of the metaclass tests the name of the class: a class called
  \<^verbatim>\<open>Model\<close> is passed on as it is, with no field marked primary key and with two
  of them alike; nothing is raised and nothing is compiled. The loop tests the truth
  value of the name it holds: a single primary-key field under the empty name is
  reported as missing.
\<close>

theorem primary_key_check_counterexample:
  "primary_keys [(''title'', FieldAttr (StringField None False (Lit VNone) ''varchar(100)''))] = []
   \<and> ModelMetaclass_new ''Model'' (Some ''models'')
        [(''title'', FieldAttr (StringField None False (Lit VNone) ''varchar(100)''))]
       = Inr Plain
   \<and> primary_keys [(''id'', FieldAttr (IntegerField None True (Lit (VInt 0)))),
                    (''code'', FieldAttr (StringField None True (Lit VNone) ''varchar(100)''))]
       = [''id'', ''code'']
   \<and> ModelMetaclass_new ''Model'' (Some ''models'')
        [(''id'', FieldAttr (IntegerField None True (Lit (VInt 0)))),
         (''code'', FieldAttr (StringField None True (Lit VNone) ''varchar(100)''))]
       = Inr Plain
   \<and> primary_keys [([], FieldAttr (IntegerField None True (Lit (VInt 0))))] = [[]]
   \<and> ModelMetaclass_new ''Student'' (Some ''Student'')
        [([], FieldAttr (IntegerField None True (Lit (VInt 0))))]
       = Inl (RuntimeError ''Primary key not found.'')"
  by (simp add: ModelMetaclass_new_def IntegerField_def StringField_def Field_def truthy_def
      or_else_def)

subsection \<open>The INSERT template\<close>

lemma qmarks_append [simp]: "qmarks (xs @ ys) = qmarks xs + qmarks ys"
  by (simp add: qmarks_def)

lemma qmarks_Cons [simp]: "qmarks (c # s) = (if c = CHR ''?'' then 1 else 0) + qmarks s"
  by (simp add: qmarks_def)

lemma qmarks_Nil [simp]: "qmarks [] = 0"
  by (simp add: qmarks_def)

lemma qmarks_join:
  "qmarks sep = 0 \<Longrightarrow> qmarks (join sep xs) = sum_list (map qmarks xs)"
  by (induction sep xs rule: join.induct) simp_all

lemma qmarks_placeholders: "qmarks (placeholders n) = n"
  by (simp add: placeholders_def qmarks_join comp_def sum_list_replicate)

lemma qmarks_escaped: "qmarks (escaped f) = qmarks f"
  by (simp add: escaped_def)

text \<open>
  C3, as the code has it. For a declaration with one primary-key field \<open>pk\<close> and
  \<open>N\<close> other fields, the INSERT template is
  \<^verbatim>\<open>insert into `<table>` (<the N other columns>, `<pk>`) values (<placeholders>)\<close>:
  the other columns come first, in declaration order, and the primary key last; the
  VALUES list holds exactly \<open>N + 1\<close> question marks. The whole template holds
  \<open>N + 1\<close> question marks plus those of the table name and of the column names, which
  are copied into it as they are.
\<close>

theorem insert_template:
  assumes "cname \<noteq> ''Model''" and "primary_keys attrs = [pk]" and "pk \<noteq> []"
  shows "\<exists>t. ModelMetaclass_new cname table_attr attrs = Inr (Compiled t)
      \<and> tbl_table t = or_else table_attr cname
      \<and> tbl_insert t =
          ''insert into `'' @ tbl_table t @ ''` (''
          @ join '', '' (map escaped (plain_keys attrs)) @ '', `'' @ pk @ ''`) values (''
          @ placeholders (length (plain_keys attrs) + 1) @ '')''
      \<and> qmarks (placeholders (length (plain_keys attrs) + 1)) = length (plain_keys attrs) + 1
      \<and> qmarks (tbl_insert t) =
          length (plain_keys attrs) + 1
          + (qmarks (tbl_table t) + sum_list (map qmarks (plain_keys attrs)) + qmarks pk)"
proof -
  have "sum_list (map (qmarks \<circ> escaped) (plain_keys attrs)) = sum_list (map qmarks (plain_keys attrs))"
    by (simp add: comp_def qmarks_escaped)
  then show ?thesis
    unfolding compile_one_pk [OF assms, of table_attr]
    by (simp add: qmarks_placeholders qmarks_join)
qed

theorem insert_template_witness:
  "\<exists>t. ModelMetaclass_new ''Student'' (Some ''Student'') Student_attrs = Inr (Compiled t)
      \<and> tbl_insert t = ''insert into `Student` (`Sname`, `Sage`, `Ssex`, `SId`) values (?, ?, ?, ?)''
      \<and> qmarks (tbl_insert t) = 4"
proof -
  have a: "''Student'' \<noteq> ''Model''" by simp
  have b: "primary_keys Student_attrs = [''SId'']"
    by (simp add: Student_attrs_def StringField_def IntegerField_def Field_def)
  have c: "''SId'' \<noteq> []" by simp
  have d: "plain_keys Student_attrs = [''Sname'', ''Sage'', ''Ssex'']"
    by (simp add: Student_attrs_def StringField_def IntegerField_def Field_def)
  from insert_template [OF a b c, of "Some ''Student''"]
  obtain t where t: "ModelMetaclass_new ''Student'' (Some ''Student'') Student_attrs = Inr (Compiled t)"
    and n0: "tbl_table t = or_else (Some ''Student'') ''Student''"
    and i: "tbl_insert t =
          ''insert into `'' @ tbl_table t @ ''` (''
          @ join '', '' (map escaped (plain_keys Student_attrs)) @ '', `'' @ ''SId'' @ ''`) values (''
          @ placeholders (length (plain_keys Student_attrs) + 1) @ '')''"
    and q: "qmarks (tbl_insert t) =
          length (plain_keys Student_attrs) + 1
          + (qmarks (tbl_table t) + sum_list (map qmarks (plain_keys Student_attrs)) + qmarks ''SId'')"
    by blast
  have n: "tbl_table t = ''Student''"
    using n0 by (simp add: or_else_def)
  have "tbl_insert t = ''insert into `Student` (`Sname`, `Sage`, `Ssex`, `SId`) values (?, ?, ?, ?)''"
    using i by (simp add: n d escaped_def placeholders_def)
  moreover have "qmarks (tbl_insert t) = 4"
    using q by (simp add: n d)
  ultimately show ?thesis using t by blast
qed

text \<open>
  A table named \<^verbatim>\<open>a?\<close> with the primary key \<^verbatim>\<open>id\<close> and one other field,
  \<^verbatim>\<open>title\<close> (\<open>N = 1\<close>): the template holds three question marks, and the
  executor rewrites the three of them into \<^verbatim>\<open>%s\<close>.
\<close>

theorem insert_template_counterexample:
  "primary_keys [(''id'', FieldAttr (IntegerField None True (Lit (VInt 0)))),
                 (''title'', FieldAttr (StringField None False (Lit VNone) ''varchar(100)''))] = [''id'']
   \<and> plain_keys [(''id'', FieldAttr (IntegerField None True (Lit (VInt 0)))),
                  (''title'', FieldAttr (StringField None False (Lit VNone) ''varchar(100)''))] = [''title'']
   \<and> insert_of (ModelMetaclass_new ''Question'' (Some ''a?'')
        [(''id'', FieldAttr (IntegerField None True (Lit (VInt 0)))),
         (''title'', FieldAttr (StringField None False (Lit VNone) ''varchar(100)''))])
       = Some ''insert into `a?` (`title`, `id`) values (?, ?)''
   \<and> map_option qmarks (insert_of (ModelMetaclass_new ''Question'' (Some ''a?'')
        [(''id'', FieldAttr (IntegerField None True (Lit (VInt 0)))),
         (''title'', FieldAttr (StringField None False (Lit VNone) ''varchar(100)''))])) = Some 3
   \<and> map_option replace_qmark (insert_of (ModelMetaclass_new ''Question'' (Some ''a?'')
        [(''id'', FieldAttr (IntegerField None True (Lit (VInt 0)))),
         (''title'', FieldAttr (StringField None False (Lit VNone) ''varchar(100)''))]))
       = Some ''insert into `a%s` (`title`, `id`) values (%s, %s)''"
  by (simp add: ModelMetaclass_new_def IntegerField_def StringField_def Field_def truthy_def
      or_else_def insert_of_def placeholders_def replace_qmark_def set_item_def escaped_def Let_def)

subsection \<open>The UPDATE template\<close>

text \<open>
  C8, as the code has it. For a declaration with one primary-key field (a dictionary:
  no attribute name occurs twice), the UPDATE template is
  \<^verbatim>\<open>update `<table>` set `<c1>`=?, ..., `<cn>`=? where `<pk>`=?\<close> over the fields
  that are not the primary key, in declaration order. The column \<open>ci\<close> of a field is
  its \<^verbatim>\<open>name\<close> attribute when that is a non-empty string, and the declaration key
  when the attribute is \<^verbatim>\<open>None\<close> or the empty string
  (\<^verbatim>\<open>mappings.get(f).name or f\<close>).
\<close>

theorem update_template:
  assumes "cname \<noteq> ''Model''" and "primary_keys attrs = [pk]" and "pk \<noteq> []"
    and "distinct (map fst attrs)"
  shows "\<exists>t. ModelMetaclass_new cname table_attr attrs = Inr (Compiled t)
      \<and> tbl_table t = or_else table_attr cname
      \<and> tbl_primary_key t = pk
      \<and> tbl_fields t = plain_keys attrs
      \<and> tbl_update t =
          ''update `'' @ tbl_table t @ ''` set ''
          @ join '', '' (map (\<lambda>f. ''`'' @ column (tbl_mappings t) f @ ''`=?'') (tbl_fields t))
          @ '' where `'' @ tbl_primary_key t @ ''`=?''
      \<and> (\<forall>f fld. (f, FieldAttr fld) \<in> set attrs \<longrightarrow>
            column (tbl_mappings t) f =
              (case name fld of None \<Rightarrow> f | Some n \<Rightarrow> if n = [] then f else n))"
proof -
  have "column (stored attrs []) f = (case name fld of None \<Rightarrow> f | Some n \<Rightarrow> if n = [] then f else n)"
    if "(f, FieldAttr fld) \<in> set attrs" for f fld
    using stored_declared [OF assms(4) that, of "[]"] by (simp add: column_def or_else_def)
  then show ?thesis
    unfolding compile_one_pk [OF assms(1,2,3), of table_attr] by simp
qed

theorem update_template_witness:
  "\<exists>t. ModelMetaclass_new ''User'' (Some ''users'')
          [(''id'', FieldAttr (IntegerField None True (Lit (VInt 0)))),
           (''nick'', FieldAttr (StringField (Some ''nickname'') False (Lit VNone) ''varchar(100)'')),
           (''email'', FieldAttr (StringField None False (Lit VNone) ''varchar(100)''))]
        = Inr (Compiled t)
      \<and> tbl_update t = ''update `users` set `nickname`=?, `email`=? where `id`=?''"
proof -
  let ?attrs = "[(''id'', FieldAttr (IntegerField None True (Lit (VInt 0)))),
           (''nick'', FieldAttr (StringField (Some ''nickname'') False (Lit VNone) ''varchar(100)'')),
           (''email'', FieldAttr (StringField None False (Lit VNone) ''varchar(100)''))]"
  have a: "''User'' \<noteq> ''Model''" by simp
  have b: "primary_keys ?attrs = [''id'']"
    by (simp add: StringField_def IntegerField_def Field_def)
  have c: "''id'' \<noteq> []" by simp
  have d: "distinct (map fst ?attrs)" by simp
  have e: "plain_keys ?attrs = [''nick'', ''email'']"
    by (simp add: StringField_def IntegerField_def Field_def)
  from update_template [OF a b c d, of "Some ''users''"]
  obtain t where t: "ModelMetaclass_new ''User'' (Some ''users'') ?attrs = Inr (Compiled t)"
    and n: "tbl_table t = or_else (Some ''users'') ''User''"
    and k: "tbl_primary_key t = ''id''"
    and f: "tbl_fields t = plain_keys ?attrs"
    and u: "tbl_update t =
          ''update `'' @ tbl_table t @ ''` set ''
          @ join '', '' (map (\<lambda>f. ''`'' @ column (tbl_mappings t) f @ ''`=?'') (tbl_fields t))
          @ '' where `'' @ tbl_primary_key t @ ''`=?''"
    and col: "\<forall>f fld. (f, FieldAttr fld) \<in> set ?attrs \<longrightarrow>
            column (tbl_mappings t) f =
              (case name fld of None \<Rightarrow> f | Some n \<Rightarrow> if n = [] then f else n)"
    by blast
  have c1: "column (tbl_mappings t) ''nick'' = ''nickname''"
    using col [rule_format, of "''nick''" "StringField (Some ''nickname'') False (Lit VNone) ''varchar(100)''"]
    by (simp add: StringField_def Field_def)
  have c2: "column (tbl_mappings t) ''email'' = ''email''"
    using col [rule_format, of "''email''" "StringField None False (Lit VNone) ''varchar(100)''"]
    by (simp add: StringField_def Field_def)
  have f': "tbl_fields t = [''nick'', ''email'']"
    using f e by (rule trans)
  have "tbl_update t = ''update `users` set `nickname`=?, `email`=? where `id`=?''"
    using u by (simp add: n k f' c1 c2 or_else_def)
  with t show ?thesis by blast
qed

text \<open>
  A field declared as \<^verbatim>\<open>nick = StringField(name='')\<close> has a \<^verbatim>\<open>name\<close>
  attribute, the empty string; its column in the SET clause is the declaration key.
\<close>

theorem update_template_counterexample:
  "name (StringField (Some []) False (Lit VNone) ''varchar(100)'') = Some []
   \<and> update_of (ModelMetaclass_new ''User'' (Some ''users'')
        [(''id'', FieldAttr (IntegerField None True (Lit (VInt 0)))),
         (''nick'', FieldAttr (StringField (Some []) False (Lit VNone) ''varchar(100)''))])
       = Some ''update `users` set `nick`=? where `id`=?''
   \<and> update_of (ModelMetaclass_new ''User'' (Some ''users'')
        [(''id'', FieldAttr (IntegerField None True (Lit (VInt 0)))),
         (''nick'', FieldAttr (StringField (Some []) False (Lit VNone) ''varchar(100)''))])
       \<noteq> Some ''update `users` set ``=? where `id`=?''"
  by (simp add: ModelMetaclass_new_def IntegerField_def StringField_def Field_def truthy_def
      or_else_def update_of_def set_item_def Let_def)

subsection \<open>The sample classes\<close>

text \<open>The tables written out above are what the metaclass builds.\<close>

lemma Student_compiled:
  "ModelMetaclass_new ''Student'' (Some ''Student'') Student_attrs = Inr (Compiled Student)"
  by (simp add: ModelMetaclass_new_def Student_attrs_def Student_def IntegerField_def StringField_def
      Field_def truthy_def or_else_def set_item_def escaped_def placeholders_def Let_def)

lemma Ticket_compiled:
  "ModelMetaclass_new ''Ticket'' None
     [(''id'', FieldAttr (StringField None True (Callable next_id) ''varchar(50)''))]
   = Inr (Compiled Ticket)"
  by (simp add: ModelMetaclass_new_def Ticket_def StringField_def
      Field_def truthy_def or_else_def set_item_def escaped_def placeholders_def Let_def)

lemma Job_compiled:
  "ModelMetaclass_new ''Job'' None
     [(''id'', FieldAttr (IntegerField None True (Lit (VInt 0)))),
      (''update'', FieldAttr (StringField None False (Lit VNone) ''varchar(100)''))]
   = Inr (Compiled Job)"
  by (simp add: ModelMetaclass_new_def Job_def StringField_def IntegerField_def
      Field_def truthy_def or_else_def set_item_def escaped_def placeholders_def Let_def)

section \<open>Properties of the executor\<close>

text \<open>
  \<^verbatim>\<open>acquire\<close> checks the first idle connection out; \<^verbatim>\<open>release\<close> after it
  leaves the pool with the connections it had.
\<close>

lemma acquire_release:
  "acquire p = Some (conn, p1) \<Longrightarrow>
   conn \<in> set (used p1) \<and> free p = conn # free p1
   \<and> used (release conn p1) = used p \<and> mset (free (release conn p1)) = mset (free p)"
  by (auto simp: acquire_def release_def split: list.splits)

text \<open>The block under \<^verbatim>\<open>async with\<close> does not touch the pool.\<close>

lemma run_cursor_pool: "w_pool (snd (run_cursor r select limit w)) = w_pool w"
  by (simp add: run_cursor_def logging_def Let_def split: option.splits)

text \<open>
  C7. Whatever the statement, the mode (select or not), the limit and the step that
  raises, if any (the logging line, before a connection is acquired;
  \<^verbatim>\<open>conn.cursor\<close>, \<^verbatim>\<open>cur.execute\<close>, the fetch, \<^verbatim>\<open>cur.close\<close>), and
  also when the call returns or finds no idle connection: after \<^verbatim>\<open>executeSql\<close>
  the connections checked out of the pool are those checked out before the call, and the
  idle connections are the same ones; the connection the call acquired is idle again.
\<close>

theorem executeSql_releases:
  "used (w_pool (snd (executeSql drv sql args select limit w))) = used (w_pool w)
   \<and> mset (free (w_pool (snd (executeSql drv sql args select limit w)))) = mset (free (w_pool w))"
proof (cases "format_err (drv (replace_qmark sql) args)")
  case (Some e)
  then show ?thesis by (simp add: executeSql_def Let_def)
next
  case None
  show ?thesis
  proof (cases "free (w_pool w)")
    case Nil
    with None show ?thesis by (simp add: executeSql_def Let_def acquire_def logging_def)
  next
    case (Cons conn idle)
    with None show ?thesis
      using run_cursor_pool [of "drv (replace_qmark sql) args" select limit]
      by (simp add: executeSql_def Let_def acquire_def logging_def release_def case_prod_beta)
  qed
qed

text \<open>With an idle connection the call does not wait.\<close>

lemma executeSql_not_Wait:
  "free (w_pool w) \<noteq> [] \<Longrightarrow> fst (executeSql drv sql args select limit w) \<noteq> Wait"
  by (auto simp: executeSql_def Let_def acquire_def logging_def run_cursor_def case_prod_beta
      split: option.splits list.splits)

text \<open>The exit paths of the executor, one by one.\<close>

lemma executeSql_mutate:
  assumes "runs drv sql args False" and "free (w_pool w) = conn # idle"
  shows "executeSql drv sql args False None w =
    (Return (VInt (reported drv sql args)),
     w\<lparr>w_log := w_log w @ [Log INFO (replace_qmark sql) args,
                             Log INFO ''rows affected: %s'' [VInt (reported drv sql args)],
                             Log INFO ''closing cursor...'' []],
       w_pool := (w_pool w)\<lparr>free := idle @ [conn]\<rparr>\<rparr>)"
  using assms
  by (simp add: executeSql_def runs_def reported_def Let_def acquire_def release_def logging_def
      run_cursor_def)

lemma executeSql_select:
  assumes "runs drv sql args True" and "free (w_pool w) = conn # idle"
  shows "\<exists>w1. executeSql drv sql args True limit w =
    (Return (VList (case limit of None \<Rightarrow> rows (drv (replace_qmark sql) args)
                    | Some n \<Rightarrow> if n \<noteq> 0 then take n (rows (drv (replace_qmark sql) args))
                               else rows (drv (replace_qmark sql) args))), w1)"
  using assms
  by (simp add: executeSql_def runs_def Let_def acquire_def release_def logging_def run_cursor_def)

lemma executeSql_execute_fails:
  assumes "format_err (drv (replace_qmark sql) args) = None"
    and "cursor_err (drv (replace_qmark sql) args) = None"
    and "execute_err (drv (replace_qmark sql) args) = Some e"
    and "free (w_pool w) = conn # idle"
  shows "executeSql drv sql args select limit w =
    (Raise e, w\<lparr>w_log := w_log w @ [Log INFO (replace_qmark sql) args],
                 w_pool := (w_pool w)\<lparr>free := idle @ [conn]\<rparr>\<rparr>)"
  using assms
  by (simp add: executeSql_def Let_def acquire_def release_def logging_def run_cursor_def)

lemma executeSql_fetch_fails:
  assumes "format_err (drv (replace_qmark sql) args) = None"
    and "cursor_err (drv (replace_qmark sql) args) = None"
    and "execute_err (drv (replace_qmark sql) args) = None"
    and "fetch_err (drv (replace_qmark sql) args) = Some e"
    and "free (w_pool w) = conn # idle"
  shows "executeSql drv sql args True limit w =
    (Raise e, w\<lparr>w_log := w_log w @ [Log INFO (replace_qmark sql) args],
                 w_pool := (w_pool w)\<lparr>free := idle @ [conn]\<rparr>\<rparr>)"
  using assms
  by (simp add: executeSql_def Let_def acquire_def release_def logging_def run_cursor_def)

section \<open>Properties of records\<close>

subsection \<open>Attribute access\<close>

lemma getattr_default_plain:
  "ns key = None \<Longrightarrow>
   getattr_default ns self key d = Inr (case self key of None \<Rightarrow> d | Some v \<Rightarrow> v)"
  by (simp add: getattr_default_def py_getattr_def Model_getattr_def split: option.splits)

lemma getattr_default_class:
  "ns key = Some a \<Longrightarrow> getattr_default ns self key d = Inr a"
  by (simp add: getattr_default_def py_getattr_def)

text \<open>
  C10, as the code has it. Setting the attribute \<open>k\<close> to \<open>v\<close> stores \<open>v\<close> under
  \<open>k\<close> in the dictionary, for every \<open>k\<close>. For a name \<open>k\<close> that the class does
  not define: reading the attribute gives the stored value; reading it when the
  dictionary has no \<open>k\<close> raises \<^verbatim>\<open>AttributeError\<close>; \<^verbatim>\<open>getValue(k)\<close> then
  returns \<^verbatim>\<open>None\<close>.
\<close>

theorem attribute_access:
  assumes "ns k = None"
  shows "Model_setattr self k v k = Some v
       \<and> py_getattr ns (Model_setattr self k v) k = Inr v
       \<and> (self k = None \<longrightarrow>
            py_getattr ns self k
              = Inl (AttributeError ([CHR 0x27] @ ''Model' object has no attribute '' @ [CHR 0x27] @ k @ [CHR 0x27])))
       \<and> (self k = None \<longrightarrow> getValue ns self k = Inr VNone)"
  using assms
  by (simp add: Model_setattr_def py_getattr_def Model_getattr_def getValue_def getattr_default_def)

theorem attribute_access_witness:
  "Model_setattr student08 ''Sname'' (VStr ''Li'') ''Sname'' = Some (VStr ''Li'')
   \<and> py_getattr Model_methods (Model_setattr student08 ''Sname'' (VStr ''Li'')) ''Sname'' = Inr (VStr ''Li'')
   \<and> py_getattr Model_methods student08 ''Sclass''
        = Inl (AttributeError ([CHR 0x27] @ ''Model' object has no attribute '' @ [CHR 0x27] @ ''Sclass'' @ [CHR 0x27]))
   \<and> getValue Model_methods student08 ''Sclass'' = Inr VNone"
proof -
  have a: "Model_methods ''Sname'' = None" by (simp add: Model_methods_def)
  have b: "Model_methods ''Sclass'' = None" by (simp add: Model_methods_def)
  have c: "student08 ''Sclass'' = None" by (simp add: student08_def)
  show ?thesis
    using attribute_access [where ns = Model_methods and k = "''Sname''" and self = student08
                            and v = "VStr ''Li''"]
          attribute_access [where ns = Model_methods and k = "''Sclass''" and self = student08]
          a b c
    by simp
qed

text \<open>
  \<^verbatim>\<open>save\<close> is a method of \<^verbatim>\<open>Model\<close>: on a record whose dictionary has no
  key \<^verbatim>\<open>save\<close>, reading the attribute gives the method and raises nothing, and
  \<^verbatim>\<open>getValue('save')\<close> returns the method, not \<^verbatim>\<open>None\<close>.
\<close>

theorem attribute_access_counterexample:
  "Map.empty ''save'' = (None :: pyval option)
   \<and> py_getattr Model_methods Map.empty ''save'' = Inr (VAttr ''save'')
   \<and> getValue Model_methods Map.empty ''save'' = Inr (VAttr ''save'')"
  by (simp add: py_getattr_def getValue_def getattr_default_def Model_methods_def)

subsection \<open>Default values\<close>

text \<open>
  C6, as the code has it. For a declared field whose key the class does not define as
  an attribute: a value set on the record and not \<^verbatim>\<open>None\<close> is the result, and the
  record is unchanged; with no value set, or \<^verbatim>\<open>None\<close> set, the result is the
  field's default, taken as it is when it is not callable (and stored on the record
  unless it is \<^verbatim>\<open>None\<close>) and called with no argument when it is callable (the
  value it returns is stored on the record; the exception it raises is raised). In each
  case \<^verbatim>\<open>getValue\<close> returns the result afterwards.
\<close>

theorem getValueOrDefault_resolves:
  assumes "ns key = None" and "map_of mappings key = Some fld"
  shows "(\<forall>v. self key = Some v \<and> v \<noteq> VNone \<longrightarrow>
            getValueOrDefault ns mappings self key = (Inr v, self))
       \<and> (self key = None \<or> self key = Some VNone \<longrightarrow>
            (case default_val fld of
               Lit d \<Rightarrow>
                 getValueOrDefault ns mappings self key =
                   (Inr d, if d \<noteq> VNone then self(key \<mapsto> d) else self)
             | Callable f \<Rightarrow>
                 (case f () of
                    Inr d \<Rightarrow> getValueOrDefault ns mappings self key = (Inr d, self(key \<mapsto> d))
                  | Inl e \<Rightarrow> getValueOrDefault ns mappings self key = (Inl e, self))))
       \<and> (\<forall>v self'. getValueOrDefault ns mappings self key = (Inr v, self') \<longrightarrow>
            getValue ns self' key = Inr v)"
  using assms
  by (auto simp: getValueOrDefault_def getattr_default_plain getValue_def Model_setattr_def
      split: option.splits dflt.splits sum.splits if_splits)

theorem getValueOrDefault_resolves_witness:
  "getValueOrDefault Model_methods (tbl_mappings Student) student08 ''Sname''
     = (Inr (VStr ''Wang''), student08)
   \<and> getValueOrDefault Model_methods (tbl_mappings Student) Map.empty ''SId''
     = (Inr (VInt 0), [''SId'' \<mapsto> VInt 0])
   \<and> getValueOrDefault Model_methods [(''created_at'', IntegerField None False (Callable clock))]
        Map.empty ''created_at''
     = (Inr (VInt 1604500000), [''created_at'' \<mapsto> VInt 1604500000])
   \<and> getValue Model_methods [''created_at'' \<mapsto> VInt 1604500000] ''created_at''
     = Inr (VInt 1604500000)"
proof -
  have n1: "Model_methods ''Sname'' = None" and n2: "Model_methods ''SId'' = None"
    and n3: "Model_methods ''created_at'' = None"
    by (simp_all add: Model_methods_def)
  have m1: "map_of (tbl_mappings Student) ''Sname'' = Some (StringField None False (Lit VNone) ''varchar(100)'')"
    and m2: "map_of (tbl_mappings Student) ''SId'' = Some (IntegerField None True (Lit (VInt 0)))"
    by (simp_all add: Student_def)
  have m3: "map_of [(''created_at'', IntegerField None False (Callable clock))] ''created_at''
      = Some (IntegerField None False (Callable clock))"
    by simp
  have "getValueOrDefault Model_methods (tbl_mappings Student) student08 ''Sname''
     = (Inr (VStr ''Wang''), student08)"
    using getValueOrDefault_resolves [where ns = Model_methods and key = "''Sname''"
        and mappings = "tbl_mappings Student" and self = student08, OF n1 m1]
    by (simp add: student08_def)
  moreover have "getValueOrDefault Model_methods (tbl_mappings Student) Map.empty ''SId''
     = (Inr (VInt 0), [''SId'' \<mapsto> VInt 0])"
    using getValueOrDefault_resolves [where ns = Model_methods and key = "''SId''"
        and mappings = "tbl_mappings Student" and self = Map.empty, OF n2 m2]
    by (simp add: IntegerField_def Field_def)
  moreover have r3: "getValueOrDefault Model_methods [(''created_at'', IntegerField None False (Callable clock))]
        Map.empty ''created_at''
     = (Inr (VInt 1604500000), [''created_at'' \<mapsto> VInt 1604500000])"
    using getValueOrDefault_resolves [where ns = Model_methods and key = "''created_at''"
        and mappings = "[(''created_at'', IntegerField None False (Callable clock))]"
        and self = Map.empty, OF n3 m3]
    by (simp add: IntegerField_def Field_def clock_def)
  moreover have "getValue Model_methods [''created_at'' \<mapsto> VInt 1604500000] ''created_at''
     = Inr (VInt 1604500000)"
    using getValueOrDefault_resolves [where ns = Model_methods and key = "''created_at''"
        and mappings = "[(''created_at'', IntegerField None False (Callable clock))]"
        and self = Map.empty, OF n3 m3] r3
    by blast
  ultimately show ?thesis by blast
qed

text \<open>
  The class \<^verbatim>\<open>Job\<close> declares the field \<^verbatim>\<open>update\<close>, and \<^verbatim>\<open>update\<close> is a
  method of \<^verbatim>\<open>Model\<close>: on a record with \<^verbatim>\<open>update\<close> set to a string, the value
  resolved for the field is the method.
\<close>

theorem getValueOrDefault_resolves_counterexample:
  "map_of (tbl_mappings Job) ''update'' = Some (StringField None False (Lit VNone) ''varchar(100)'')
   \<and> job1 ''update'' = Some (VStr ''2020-11-04'')
   \<and> fst (getValueOrDefault Model_methods (tbl_mappings Job) job1 ''update'') = Inr (VAttr ''update'')
   \<and> fst (getValueOrDefault Model_methods (tbl_mappings Job) job1 ''update'') \<noteq> Inr (VStr ''2020-11-04'')"
  by (simp add: Job_def job1_def getValueOrDefault_def getattr_default_def py_getattr_def
      Model_methods_def)

subsection \<open>save, update and remove\<close>

lemma student08_args:
  "statement_args Model_methods Student student08
     = (Inr [VStr ''Wang'', VStr ''1990-10-01'', VStr ''F'', VStr ''08''], student08)"
  by (simp add: statement_args_def Student_def getValueOrDefault_def getattr_default_def
      py_getattr_def Model_getattr_def Model_methods_def student08_def)

text \<open>
  C5, as the code has it. \<^verbatim>\<open>save\<close> raises exactly when resolving the argument
  values raises, which happens before the \<^verbatim>\<open>try\<close> (a default factory raises).
  Once the values are resolved: an exception of the executor is logged as an error and
  \<^verbatim>\<open>save\<close> returns \<^verbatim>\<open>None\<close>; a row count other than 1 is logged as a warning
  and \<^verbatim>\<open>save\<close> returns \<^verbatim>\<open>None\<close>; and with an idle connection in the pool
  \<^verbatim>\<open>save\<close> returns \<^verbatim>\<open>None\<close> whatever the engine does.
\<close>

theorem save_swallows:
  "(\<forall>e. (fst (save ns c drv self w) = Raise e) = (fst (statement_args ns c self) = Inl e))
   \<and> (\<forall>args self1 e w1.
         statement_args ns c self = (Inr args, self1)
         \<and> executeSql drv (tbl_insert c) args False None w = (Raise e, w1) \<longrightarrow>
         save ns c drv self w = (Return VNone, self1, logging_exc ERROR e w1))
   \<and> (\<forall>args self1 n w1.
         statement_args ns c self = (Inr args, self1)
         \<and> executeSql drv (tbl_insert c) args False None w = (Return (VInt n), w1) \<and> n \<noteq> 1 \<longrightarrow>
         save ns c drv self w =
           (Return VNone, self1,
            logging WARNING ''failed to insert record. affected rows: %s'' [VInt n] w1))
   \<and> (\<forall>args self1.
         statement_args ns c self = (Inr args, self1) \<and> free (w_pool w) \<noteq> [] \<longrightarrow>
         fst (save ns c drv self w) = Return VNone)"
proof (intro conjI allI impI)
  fix e
  show "(fst (save ns c drv self w) = Raise e) = (fst (statement_args ns c self) = Inl e)"
    by (auto simp: save_def split: prod.splits sum.splits outcome.splits)
next
  fix args self1 e w1
  assume "statement_args ns c self = (Inr args, self1)
         \<and> executeSql drv (tbl_insert c) args False None w = (Raise e, w1)"
  then show "save ns c drv self w = (Return VNone, self1, logging_exc ERROR e w1)"
    by (simp add: save_def)
next
  fix args self1 n w1
  assume "statement_args ns c self = (Inr args, self1)
         \<and> executeSql drv (tbl_insert c) args False None w = (Return (VInt n), w1) \<and> n \<noteq> 1"
  then show "save ns c drv self w =
           (Return VNone, self1,
            logging WARNING ''failed to insert record. affected rows: %s'' [VInt n] w1)"
    by (simp add: save_def)
next
  fix args self1
  assume a: "statement_args ns c self = (Inr args, self1) \<and> free (w_pool w) \<noteq> []"
  then have "fst (executeSql drv (tbl_insert c) args False None w) \<noteq> Wait"
    by (simp add: executeSql_not_Wait)
  with a show "fst (save ns c drv self w) = Return VNone"
    by (auto simp: save_def split: prod.splits outcome.splits)
qed

theorem save_swallows_witness:
  "save Model_methods Student db_refuses student08 world0 =
     (Return VNone, student08,
      \<lparr>w_pool = \<lparr>free = [0], used = []\<rparr>,
       w_log = [Log INFO ''insert into `Student` (`Sname`, `Sage`, `Ssex`, `SId`) values (%s, %s, %s, %s)''
                  [VStr ''Wang'', VStr ''1990-10-01'', VStr ''F'', VStr ''08''],
                LogExc ERROR (DatabaseError ''Duplicate entry'')]\<rparr>)
   \<and> fst (save Model_methods Student db_no_rows student08 world0) = Return VNone"
proof -
  let ?args = "[VStr ''Wang'', VStr ''1990-10-01'', VStr ''F'', VStr ''08'']"
  let ?w1 = "\<lparr>w_pool = \<lparr>free = [0], used = []\<rparr>,
       w_log = [Log INFO ''insert into `Student` (`Sname`, `Sage`, `Ssex`, `SId`) values (%s, %s, %s, %s)'' ?args]\<rparr>"
  have ex: "executeSql db_refuses (tbl_insert Student) ?args False None world0
      = (Raise (DatabaseError ''Duplicate entry''), ?w1)"
    by (simp add: executeSql_def Let_def acquire_def release_def logging_def run_cursor_def
        db_refuses_def answer_def world0_def Student_def replace_qmark_def)
  have fr: "free (w_pool world0) \<noteq> []" by (simp add: world0_def)
  have "save Model_methods Student db_refuses student08 world0 =
      (Return VNone, student08, logging_exc ERROR (DatabaseError ''Duplicate entry'') ?w1)"
    using save_swallows [of Model_methods Student db_refuses student08 world0] student08_args ex
    by blast
  moreover have "fst (save Model_methods Student db_no_rows student08 world0) = Return VNone"
    using save_swallows [of Model_methods Student db_no_rows student08 world0] student08_args fr
    by blast
  ultimately show ?thesis by (simp add: logging_exc_def)
qed

text \<open>
  \<^verbatim>\<open>Ticket().save()\<close>: the primary key is not set and its default factory raises;
  the exception leaves \<^verbatim>\<open>save\<close>, and no statement is run.
\<close>

theorem save_swallows_counterexample:
  "save Model_methods Ticket db_no_rows Map.empty world0
     = (Raise (UserError ''no id left''), Map.empty, world0)"
  by (simp add: save_def statement_args_def Ticket_def getValueOrDefault_def getattr_default_def
      py_getattr_def Model_getattr_def Model_methods_def StringField_def Field_def next_id_def)

text \<open>
  C9. With an idle connection in the pool and a statement that runs through, a row
  count other than 1 makes \<^verbatim>\<open>update\<close> and \<^verbatim>\<open>remove\<close> return \<^verbatim>\<open>None\<close>;
  what they add to the executor's effects is one warning in the log.
\<close>

theorem update_remove_warn:
  assumes "free (w_pool w) \<noteq> []"
  shows "(\<forall>args self1.
           statement_args ns c self = (Inr args, self1)
           \<and> runs drv (tbl_update c) args False \<and> reported drv (tbl_update c) args \<noteq> 1 \<longrightarrow>
           (\<exists>w1. executeSql drv (tbl_update c) args False None w
                   = (Return (VInt (reported drv (tbl_update c) args)), w1)
                \<and> update ns c drv self w =
                   (Return VNone, self1,
                    logging WARNING ''failed to update record. affected rows: %s''
                      [VInt (reported drv (tbl_update c) args)] w1)))
       \<and> (runs drv (tbl_delete c) [primary] False \<and> reported drv (tbl_delete c) [primary] \<noteq> 1 \<longrightarrow>
           (\<exists>w1. executeSql drv (tbl_delete c) [primary] False None w
                   = (Return (VInt (reported drv (tbl_delete c) [primary])), w1)
                \<and> remove c drv primary w =
                   (Return VNone,
                    logging WARNING ''failed to remove record. affected rows: %s''
                      [VInt (reported drv (tbl_delete c) [primary])] w1)))"
proof -
  from assms obtain conn idle where f: "free (w_pool w) = conn # idle"
    by (cases "free (w_pool w)") auto
  show ?thesis
  proof (intro conjI allI impI)
    fix args self1
    assume a: "statement_args ns c self = (Inr args, self1)
           \<and> runs drv (tbl_update c) args False \<and> reported drv (tbl_update c) args \<noteq> 1"
    then show "\<exists>w1. executeSql drv (tbl_update c) args False None w
                   = (Return (VInt (reported drv (tbl_update c) args)), w1)
                \<and> update ns c drv self w =
                   (Return VNone, self1,
                    logging WARNING ''failed to update record. affected rows: %s''
                      [VInt (reported drv (tbl_update c) args)] w1)"
      using executeSql_mutate [of drv "tbl_update c" args w conn idle] f
      by (simp add: update_def)
  next
    assume a: "runs drv (tbl_delete c) [primary] False \<and> reported drv (tbl_delete c) [primary] \<noteq> 1"
    then show "\<exists>w1. executeSql drv (tbl_delete c) [primary] False None w
                   = (Return (VInt (reported drv (tbl_delete c) [primary])), w1)
                \<and> remove c drv primary w =
                   (Return VNone,
                    logging WARNING ''failed to remove record. affected rows: %s''
                      [VInt (reported drv (tbl_delete c) [primary])] w1)"
      using executeSql_mutate [of drv "tbl_delete c" "[primary]" w conn idle] f
      by (simp add: remove_def)
  qed
qed

theorem update_remove_warn_witness:
  "fst (update Model_methods Student db_no_rows student08 world0) = Return VNone
   \<and> last (w_log (snd (snd (update Model_methods Student db_no_rows student08 world0))))
       = Log WARNING ''failed to update record. affected rows: %s'' [VInt 0]
   \<and> fst (remove Student db_no_rows (VStr ''08'') world0) = Return VNone
   \<and> last (w_log (snd (remove Student db_no_rows (VStr ''08'') world0)))
       = Log WARNING ''failed to remove record. affected rows: %s'' [VInt 0]"
proof -
  let ?args = "[VStr ''Wang'', VStr ''1990-10-01'', VStr ''F'', VStr ''08'']"
  have fr: "free (w_pool world0) \<noteq> []" by (simp add: world0_def)
  have r1: "runs db_no_rows (tbl_update Student) ?args False"
    and r2: "runs db_no_rows (tbl_delete Student) [VStr ''08''] False"
    by (simp_all add: runs_def db_no_rows_def answer_def)
  have c1: "reported db_no_rows (tbl_update Student) ?args = 0"
    and c2: "reported db_no_rows (tbl_delete Student) [VStr ''08''] = 0"
    by (simp_all add: reported_def db_no_rows_def answer_def)
  note th = update_remove_warn [OF fr, of Model_methods Student student08 db_no_rows "VStr ''08''"]
  from th student08_args r1 c1
  obtain w1 where "update Model_methods Student db_no_rows student08 world0 =
      (Return VNone, student08,
       logging WARNING ''failed to update record. affected rows: %s'' [VInt 0] w1)"
    by fastforce
  moreover from th r2 c2
  obtain w2 where "remove Student db_no_rows (VStr ''08'') world0 =
      (Return VNone, logging WARNING ''failed to remove record. affected rows: %s'' [VInt 0] w2)"
    by fastforce
  ultimately show ?thesis by (simp add: logging_def)
qed

subsection \<open>find, findAll and findCount\<close>

text \<open>
  What \<^verbatim>\<open>find\<close> asks of the executor and what it returns: the statement is the
  SELECT template followed by \<^verbatim>\<open> where <pk>= ?\<close>, the argument list is
  \<^verbatim>\<open>[pk]\<close>, the limit is 1; with no row the result is \<^verbatim>\<open>None\<close>, and otherwise
  the list that \<^verbatim>\<open>fetchmany(1)\<close> returned.
\<close>

lemma find_result:
  assumes "runs drv (tbl_select c @ '' where '' @ tbl_primary_key c @ ''= ?'') [pk] True"
    and "free (w_pool w) \<noteq> []"
  shows "fst (find c drv pk w) =
    (case rows (drv (replace_qmark (tbl_select c @ '' where '' @ tbl_primary_key c @ ''= ?'')) [pk]) of
       [] \<Rightarrow> Return VNone
     | row # others \<Rightarrow> Return (VList [row]))"
proof -
  from assms(2) obtain conn idle where f: "free (w_pool w) = conn # idle"
    by (cases "free (w_pool w)") auto
  from executeSql_select [OF assms(1) f, of "Some 1"] show ?thesis
    by (auto simp: find_def split: list.splits)
qed

text \<open>
  C1 at one matching row: \<^verbatim>\<open>Student.find('02')\<close> returns the list holding the row,
  not the row.
\<close>

theorem find_returns_list:
  "fst (find Student db_one_row (VStr ''02'') world0) = Return (VList [row02])
   \<and> fst (find Student db_one_row (VStr ''02'') world0) \<noteq> Return row02
   \<and> fst (find Student db_no_rows (VStr ''02'') world0) = Return VNone"
proof -
  have fr: "free (w_pool world0) \<noteq> []" by (simp add: world0_def)
  have "fst (find Student db_one_row (VStr ''02'') world0) = Return (VList [row02])"
    by (subst find_result) (simp_all add: fr runs_def db_one_row_def answer_def)
  moreover have "fst (find Student db_no_rows (VStr ''02'') world0) = Return VNone"
    by (subst find_result) (simp_all add: fr runs_def db_no_rows_def answer_def)
  moreover have "VList [row02] \<noteq> row02" by (simp add: row02_def)
  ultimately show ?thesis by simp
qed

text \<open>When rows match, \<^verbatim>\<open>findCount\<close> is the length of what \<^verbatim>\<open>findAll\<close> returns.\<close>

lemma findCount_length:
  "findAll c drv where_clause limit w = (Return (VList rs), w1) \<Longrightarrow>
   findCount c drv where_clause limit w = (Return (VInt (int (length rs))), w1)"
  by (simp add: findCount_def)

lemma findAll_result:
  assumes "runs drv (if truthy where_clause then tbl_select c @ '' where '' @ the where_clause
                     else tbl_select c) [] True"
    and "free (w_pool w) \<noteq> []"
  shows "fst (findAll c drv where_clause None w) =
    (case rows (drv (replace_qmark (if truthy where_clause
                                    then tbl_select c @ '' where '' @ the where_clause
                                    else tbl_select c)) []) of
       [] \<Rightarrow> Return VNone
     | row # others \<Rightarrow> Return (VList (row # others)))"
proof -
  from assms(2) obtain conn idle where f: "free (w_pool w) = conn # idle"
    by (cases "free (w_pool w)") auto
  show ?thesis
  proof (cases "truthy where_clause")
    case True
    with assms(1) have "runs drv (tbl_select c @ '' where '' @ the where_clause) [] True" by simp
    from executeSql_select [OF this f, of None] True show ?thesis
      by (auto simp: findAll_def split: list.splits)
  next
    case False
    with assms(1) have "runs drv (tbl_select c) [] True" by simp
    from executeSql_select [OF this f, of None] False show ?thesis
      by (auto simp: findAll_def split: list.splits)
  qed
qed

text \<open>
  C2 at a WHERE clause that no row matches: \<^verbatim>\<open>findAll\<close> returns \<^verbatim>\<open>None\<close>, and
  \<^verbatim>\<open>findCount\<close> raises the \<^verbatim>\<open>TypeError\<close> of \<^verbatim>\<open>len(None)\<close>. With one
  matching row it returns 1.
\<close>

theorem findCount_no_rows:
  "fst (findAll Student db_no_rows (Some ''SId >= 12'') None world0) = Return VNone
   \<and> fst (findCount Student db_no_rows (Some ''SId >= 12'') None world0)
       = Raise (TypeError ''object of type 'NoneType' has no len()'')
   \<and> fst (findCount Student db_one_row (Some ''SId >= 02'') None world0) = Return (VInt 1)"
proof -
  have fr: "free (w_pool world0) \<noteq> []" by (simp add: world0_def)
  have a: "fst (findAll Student db_no_rows (Some ''SId >= 12'') None world0) = Return VNone"
    by (subst findAll_result) (simp_all add: fr runs_def db_no_rows_def answer_def)
  have b: "fst (findAll Student db_one_row (Some ''SId >= 02'') None world0) = Return (VList [row02])"
    by (subst findAll_result) (simp_all add: fr runs_def db_one_row_def answer_def)
  obtain w1 where a': "findAll Student db_no_rows (Some ''SId >= 12'') None world0 = (Return VNone, w1)"
    using a by (cases "findAll Student db_no_rows (Some ''SId >= 12'') None world0") auto
  obtain w2 where b': "findAll Student db_one_row (Some ''SId >= 02'') None world0
      = (Return (VList [row02]), w2)"
    using b by (cases "findAll Student db_one_row (Some ''SId >= 02'') None world0") auto
  have "fst (findCount Student db_no_rows (Some ''SId >= 12'') None world0)
       = Raise (TypeError ''object of type 'NoneType' has no len()'')"
    by (simp add: findCount_def a')
  moreover have "fst (findCount Student db_one_row (Some ''SId >= 02'') None world0) = Return (VInt 1)"
    by (simp add: findCount_length [OF b'])
  ultimately show ?thesis using a by simp
qed

end
